theory Spec2Isabelle
  imports Complex_Main
begin

section \<open>The relational store\<close>

text \<open>
  The backend (index.js) talks to a PostgreSQL database through \<open>pool.query\<close>. The
  tables the checkout handler \<open>router.post('/processOrder')\<close> and the retrieval handler
  \<open>router.get('/receipts/:receipt_id')\<close> touch are modelled as lists of rows, in insertion
  order. Only the columns these two handlers read or write are kept; the clock columns of
  \<open>receipt\<close> (\<open>date\<close>, \<open>order_time\<close>) and its \<open>status\<close> are left out. Prices and
  stock quantities are rationals, the cart quantity is an integer.
\<close>

record receipt_row =
  receipt_id :: nat
  totalamount :: rat

record line_item_row =
  line_item_id :: nat
  li_receipt_id :: nat
  li_price :: rat

record meal_item_row =
  mi_line_item_id :: nat
  mi_size :: "string option"
  mi_price :: rat
  mi_meat1 :: "string option"
  mi_meat2 :: "string option"
  mi_meat3 :: "string option"
  mi_side :: "string option"

record drink_item_row =
  di_line_item_id :: nat
  di_name :: "string option"
  di_price :: rat
  di_size :: "string option"

record appetizer_item_row =
  ai_line_item_id :: nat
  ai_name :: "string option"
  ai_price :: rat

record menu_row =
  menu_id :: nat
  m_name :: string

record recipe_ingredient_row =
  ri_recipe_id :: nat
  ri_ingredient_id :: nat

record ingredient_row =
  i_ingredient_id :: nat
  i_inventory_id :: nat
  i_quantity :: rat

record inventory_row =
  inv_inventory_id :: nat
  inv_quantity :: rat

record tables =
  receipt :: "receipt_row list"
  line_item :: "line_item_row list"
  meal_item :: "meal_item_row list"
  drink_item :: "drink_item_row list"
  appetizer_item :: "appetizer_item_row list"
  menu :: "menu_row list"
  recipe_ingredient :: "recipe_ingredient_row list"
  ingredient :: "ingredient_row list"
  inventory :: "inventory_row list"

text \<open>
  The connection behind \<open>pool\<close>: the committed tables, the working copy of an open
  transaction (\<open>None\<close> when no transaction is open, so that a statement commits at once),
  the two sequences that generate \<open>receipt_id\<close> and \<open>line_item_id\<close>, and the number of
  statements issued so far. Sequences are not rewound by a rollback. The handlers run one
  request at a time on one connection; interleaving of requests is outside this model.
\<close>

record conn =
  committed :: tables
  txn :: "tables option"
  receipt_seq :: nat
  line_item_seq :: nat
  issued :: nat

datatype error = DbError nat | TypeError

type_synonym 'a outcome = "(error + 'a) \<times> conn"

definition current :: "conn \<Rightarrow> tables" where
  "current c = (case txn c of Some w \<Rightarrow> w | None \<Rightarrow> committed c)"

definition store :: "tables \<Rightarrow> conn \<Rightarrow> conn" where
  "store t c = (case txn c of Some _ \<Rightarrow> c\<lparr>txn := Some t\<rparr> | None \<Rightarrow> c\<lparr>committed := t\<rparr>)"

text \<open>
  \<open>await pool.query(...)\<close>: the statement numbered \<open>issued c\<close> is sent; when the fault
  plan \<open>flt\<close> marks that number the query rejects (constraint violation, lost connection)
  and leaves the tables as they were, otherwise it runs.
\<close>

definition query :: "(nat \<Rightarrow> bool) \<Rightarrow> (conn \<Rightarrow> 'a \<times> conn) \<Rightarrow> conn \<Rightarrow> 'a outcome" where
  "query flt run c =
     (let k = issued c; c1 = c\<lparr>issued := Suc k\<rparr>
      in if flt k then (Inl (DbError k), c1)
         else (case run c1 of (r, c2) \<Rightarrow> (Inr r, c2)))"

text \<open>Sequencing of awaited calls inside \<open>try\<close>: the first rejection skips the rest.\<close>

definition and_then :: "'a outcome \<Rightarrow> ('a \<Rightarrow> conn \<Rightarrow> 'b outcome) \<Rightarrow> 'b outcome" where
  "and_then m f = (case m of (Inl e, c) \<Rightarrow> (Inl e, c) | (Inr x, c) \<Rightarrow> f x c)"

subsection \<open>The SQL statements\<close>

definition sql_begin :: "conn \<Rightarrow> unit \<times> conn" where
  "sql_begin c = ((), case txn c of None \<Rightarrow> c\<lparr>txn := Some (committed c)\<rparr> | Some _ \<Rightarrow> c)"

definition sql_commit :: "conn \<Rightarrow> unit \<times> conn" where
  "sql_commit c =
     ((), case txn c of Some w \<Rightarrow> c\<lparr>committed := w, txn := None\<rparr> | None \<Rightarrow> c)"

definition sql_rollback :: "conn \<Rightarrow> conn" where
  "sql_rollback c = c\<lparr>txn := None\<rparr>"

definition insert_receipt :: "rat \<Rightarrow> conn \<Rightarrow> nat \<times> conn" where
  "insert_receipt amount c =
     (let rid = receipt_seq c; t = current c
      in (rid, store (t\<lparr>receipt := receipt t @ [\<lparr>receipt_id = rid, totalamount = amount\<rparr>]\<rparr>)
                     (c\<lparr>receipt_seq := Suc rid\<rparr>)))"

definition insert_line_item :: "nat \<Rightarrow> rat \<Rightarrow> conn \<Rightarrow> nat \<times> conn" where
  "insert_line_item rid p c =
     (let lid = line_item_seq c; t = current c
      in (lid, store (t\<lparr>line_item := line_item t @
                          [\<lparr>line_item_id = lid, li_receipt_id = rid, li_price = p\<rparr>]\<rparr>)
                     (c\<lparr>line_item_seq := Suc lid\<rparr>)))"

definition insert_meal_item :: "meal_item_row \<Rightarrow> conn \<Rightarrow> unit \<times> conn" where
  "insert_meal_item row c =
     (let t = current c in ((), store (t\<lparr>meal_item := meal_item t @ [row]\<rparr>) c))"

definition insert_drink_item :: "drink_item_row \<Rightarrow> conn \<Rightarrow> unit \<times> conn" where
  "insert_drink_item row c =
     (let t = current c in ((), store (t\<lparr>drink_item := drink_item t @ [row]\<rparr>) c))"

definition insert_appetizer_item :: "appetizer_item_row \<Rightarrow> conn \<Rightarrow> unit \<times> conn" where
  "insert_appetizer_item row c =
     (let t = current c in ((), store (t\<lparr>appetizer_item := appetizer_item t @ [row]\<rparr>) c))"

text \<open>
  The four-table join of the ingredient lookup,
  \<open>menu m JOIN recipe_ingredient ri ON m.menu_id = ri.recipe_id JOIN ingredient i ON
  ri.ingredient_id = i.ingredient_id JOIN inventory inv ON i.inventory_id = inv.inventory_id\<close>,
  with the \<open>WHERE\<close> condition on \<open>m\<close> as a parameter; a result row is
  \<open>(inv.inventory_id, i.quantity)\<close>.
\<close>

definition ingredient_join :: "tables \<Rightarrow> (menu_row \<Rightarrow> bool) \<Rightarrow> (nat \<times> rat) list" where
  "ingredient_join t wh =
     [(inv_inventory_id s, i_quantity i).
        m \<leftarrow> filter wh (menu t),
        ri \<leftarrow> filter (\<lambda>ri. menu_id m = ri_recipe_id ri) (recipe_ingredient t),
        i \<leftarrow> filter (\<lambda>i. ri_ingredient_id ri = i_ingredient_id i) (ingredient t),
        s \<leftarrow> filter (\<lambda>s. i_inventory_id i = inv_inventory_id s) (inventory t)]"

text \<open>\<open>WHERE m.name IN ($1, $2, $3, $4)\<close>: a \<open>NULL\<close> parameter matches no name.\<close>

definition select_ingredients_in ::
  "string option list \<Rightarrow> conn \<Rightarrow> (nat \<times> rat) list \<times> conn" where
  "select_ingredients_in ps c =
     (ingredient_join (current c) (\<lambda>m. Some (m_name m) \<in> set ps), c)"

text \<open>\<open>WHERE m.name = $1\<close>.\<close>

definition select_ingredients_eq ::
  "string option \<Rightarrow> conn \<Rightarrow> (nat \<times> rat) list \<times> conn" where
  "select_ingredients_eq p c =
     (ingredient_join (current c) (\<lambda>m. Some (m_name m) = p), c)"

text \<open>\<open>UPDATE inventory SET quantity = quantity - $1 WHERE inventory_id = $2\<close>.\<close>

definition update_inventory :: "rat \<Rightarrow> nat \<Rightarrow> conn \<Rightarrow> unit \<times> conn" where
  "update_inventory d iid c =
     (let t = current c
      in ((), store (t\<lparr>inventory :=
                        map (\<lambda>r. if inv_inventory_id r = iid
                                 then r\<lparr>inv_quantity := inv_quantity r - d\<rparr> else r)
                            (inventory t)\<rparr>) c))"

section \<open>Checkout: \<open>router.post('/processOrder')\<close>\<close>

text \<open>
  A cart entry as it arrives in \<open>req.body.orderList\<close>. A field that is missing or
  \<open>null\<close> is \<open>None\<close>; a \<open>null\<close> slot of \<open>entrees\<close> is a \<open>None\<close> element.
  The quantity is an integer (a fractional quantity is outside this model); the type is
  any string.
\<close>

record order_item =
  oi_type :: string
  oi_name :: "string option"
  oi_price :: rat
  oi_quantity :: "int option"
  oi_entrees :: "string option list option"
  oi_side :: "string option"
  oi_size :: "string option"

text \<open>\<open>orderItem.quantity || 1\<close>: a missing, null or zero quantity is falsy.\<close>

definition quantity_of :: "order_item \<Rightarrow> int" where
  "quantity_of e = (case oi_quantity e of None \<Rightarrow> 1 | Some q \<Rightarrow> if q = 0 then 1 else q)"

text \<open>
  \<open>orderItem.entrees[i] || null\<close>: a slot beyond the end of the array is \<open>undefined\<close>, and
  \<open>undefined\<close>, \<open>null\<close> and the empty string are all falsy.
\<close>

definition entree_slot :: "string option list \<Rightarrow> nat \<Rightarrow> string option" where
  "entree_slot es i =
     (if i < length es
      then (case es ! i of None \<Rightarrow> None | Some s \<Rightarrow> if s = [] then None else Some s)
      else None)"

text \<open>
  \<open>switch (orderItem.type)\<close>. Building the parameter array of the \<open>Meal\<close> case reads
  \<open>orderItem.entrees[0]\<close>, which throws a TypeError before any query is sent when
  \<open>entrees\<close> is missing. A type that no \<open>case\<close> label matches inserts nothing.
\<close>

definition insert_variant :: "(nat \<Rightarrow> bool) \<Rightarrow> nat \<Rightarrow> order_item \<Rightarrow> conn \<Rightarrow> unit outcome" where
  "insert_variant flt lid e c =
     (if oi_type e = ''Meal'' then
        (case oi_entrees e of
           None \<Rightarrow> (Inl TypeError, c)
         | Some es \<Rightarrow>
             query flt (insert_meal_item
               \<lparr>mi_line_item_id = lid, mi_size = oi_size e, mi_price = oi_price e,
                mi_meat1 = entree_slot es 0, mi_meat2 = entree_slot es 1,
                mi_meat3 = entree_slot es 2, mi_side = oi_side e\<rparr>) c)
      else if oi_type e = ''drink'' \<or> oi_type e = ''Drink'' then
        query flt (insert_drink_item
          \<lparr>di_line_item_id = lid, di_name = oi_name e, di_price = oi_price e,
           di_size = Some ''Regular''\<rparr>) c
      else if oi_type e = ''appetizer'' then
        query flt (insert_appetizer_item
          \<lparr>ai_line_item_id = lid, ai_name = oi_name e, ai_price = oi_price e\<rparr>) c
      else (Inr (), c))"

text \<open>
  \<open>for (let q = 0; q < quantity; q++)\<close>, with the number of iterations left as the
  recursion argument.
\<close>

fun insert_units :: "(nat \<Rightarrow> bool) \<Rightarrow> nat \<Rightarrow> order_item \<Rightarrow> nat \<Rightarrow> conn \<Rightarrow> unit outcome" where
  "insert_units flt rid e 0 c = (Inr (), c)"
| "insert_units flt rid e (Suc k) c =
     and_then (query flt (insert_line_item rid (oi_price e)) c)
       (\<lambda>lid c1. and_then (insert_variant flt lid e c1)
          (\<lambda>_ c2. insert_units flt rid e k c2))"

definition fetch_ingredients :: "(nat \<Rightarrow> bool) \<Rightarrow> order_item \<Rightarrow> conn \<Rightarrow> (nat \<times> rat) list outcome" where
  "fetch_ingredients flt e c =
     (if oi_type e = ''Meal'' then
        (case oi_entrees e of
           None \<Rightarrow> (Inl TypeError, c)
         | Some es \<Rightarrow>
             query flt (select_ingredients_in
               [entree_slot es 0, entree_slot es 1, entree_slot es 2, oi_side e]) c)
      else query flt (select_ingredients_eq (oi_name e)) c)"

text \<open>\<open>for (const row of ingredientList.rows)\<close>: one \<open>UPDATE\<close> per result row.\<close>

fun update_rows :: "(nat \<Rightarrow> bool) \<Rightarrow> int \<Rightarrow> (nat \<times> rat) list \<Rightarrow> conn \<Rightarrow> unit outcome" where
  "update_rows flt q [] c = (Inr (), c)"
| "update_rows flt q (row # rows) c =
     and_then (query flt (update_inventory (snd row * of_int q) (fst row)) c)
       (\<lambda>_ c1. update_rows flt q rows c1)"

text \<open>The body of \<open>for (const orderItem of orderList)\<close>.\<close>

definition process_item :: "(nat \<Rightarrow> bool) \<Rightarrow> nat \<Rightarrow> order_item \<Rightarrow> conn \<Rightarrow> unit outcome" where
  "process_item flt rid e c =
     (let quantity = quantity_of e
      in and_then (insert_units flt rid e (nat quantity) c)
           (\<lambda>_ c1. and_then (fetch_ingredients flt e c1)
              (\<lambda>rows c2. update_rows flt quantity rows c2)))"

fun process_items :: "(nat \<Rightarrow> bool) \<Rightarrow> nat \<Rightarrow> order_item list \<Rightarrow> conn \<Rightarrow> unit outcome" where
  "process_items flt rid [] c = (Inr (), c)"
| "process_items flt rid (e # es) c =
     and_then (process_item flt rid e c) (\<lambda>_ c1. process_items flt rid es c1)"

text \<open>The statements between \<open>BEGIN\<close> and \<open>COMMIT\<close>.\<close>

definition order_body :: "(nat \<Rightarrow> bool) \<Rightarrow> order_item list \<Rightarrow> rat \<Rightarrow> conn \<Rightarrow> nat outcome" where
  "order_body flt orderList totalPrice c =
     and_then (query flt (insert_receipt totalPrice) c)
       (\<lambda>receiptId c1. and_then (process_items flt receiptId orderList c1)
          (\<lambda>_ c2. (Inr receiptId, c2)))"

text \<open>The \<open>try\<close> block.\<close>

definition order_try :: "(nat \<Rightarrow> bool) \<Rightarrow> order_item list \<Rightarrow> rat \<Rightarrow> conn \<Rightarrow> nat outcome" where
  "order_try flt orderList totalPrice c =
     and_then (query flt sql_begin c)
       (\<lambda>_ c1. and_then (order_body flt orderList totalPrice c1)
          (\<lambda>receiptId c2. and_then (query flt sql_commit c2)
             (\<lambda>_ c3. (Inr receiptId, c3))))"

text \<open>
  The response: \<open>res.json({ result: receiptId, success: true })\<close>, or status 500 with the
  error's message after \<open>ROLLBACK\<close> in the \<open>catch\<close> block.
\<close>

datatype order_response = OrderSuccess nat | OrderError error

definition processOrder ::
  "(nat \<Rightarrow> bool) \<Rightarrow> order_item list \<Rightarrow> rat \<Rightarrow> conn \<Rightarrow> order_response \<times> conn" where
  "processOrder flt orderList totalPrice c =
     (case order_try flt orderList totalPrice c of
        (Inr receiptId, c1) \<Rightarrow> (OrderSuccess receiptId, c1)
      | (Inl err, c1) \<Rightarrow> (OrderError err, sql_rollback c1))"

section \<open>Retrieval: \<open>router.get('/receipts/:receipt_id')\<close>\<close>

text \<open>
  One element of \<open>line_items\<close> in the response: the \<open>line_item_id\<close>, the \<open>price\<close> and
  the members that depend on the variant. \<open>detail_type\<close> is the \<open>type\<close> member.
\<close>

datatype item_detail =
    MealDetail "string option" "string list" "string option"
  | AppetizerDetail "string option"
  | DrinkDetail "string option" "string option"
  | UnknownDetail

fun detail_type :: "item_detail \<Rightarrow> string" where
  "detail_type (MealDetail sz meats sd) = ''Meal''"
| "detail_type (AppetizerDetail nm) = ''Appetizer''"
| "detail_type (DrinkDetail nm sz) = ''Drink''"
| "detail_type UnknownDetail = ''Unknown''"

record item_json =
  j_line_item_id :: nat
  j_detail :: item_detail
  j_price :: rat

definition select_receipt :: "nat \<Rightarrow> conn \<Rightarrow> receipt_row list \<times> conn" where
  "select_receipt rid c = (filter (\<lambda>r. receipt_id r = rid) (receipt (current c)), c)"

definition select_line_items :: "nat \<Rightarrow> conn \<Rightarrow> line_item_row list \<times> conn" where
  "select_line_items rid c = (filter (\<lambda>li. li_receipt_id li = rid) (line_item (current c)), c)"

definition select_meal_item :: "nat \<Rightarrow> conn \<Rightarrow> meal_item_row list \<times> conn" where
  "select_meal_item lid c = (filter (\<lambda>mi. mi_line_item_id mi = lid) (meal_item (current c)), c)"

definition select_appetizer_item :: "nat \<Rightarrow> conn \<Rightarrow> appetizer_item_row list \<times> conn" where
  "select_appetizer_item lid c =
     (filter (\<lambda>ai. ai_line_item_id ai = lid) (appetizer_item (current c)), c)"

definition select_drink_item :: "nat \<Rightarrow> conn \<Rightarrow> drink_item_row list \<times> conn" where
  "select_drink_item lid c = (filter (\<lambda>di. di_line_item_id di = lid) (drink_item (current c)), c)"

text \<open>\<open>[mi.meat1, mi.meat2, mi.meat3].filter(Boolean)\<close>: null and empty names are dropped.\<close>

fun filter_Boolean :: "string option list \<Rightarrow> string list" where
  "filter_Boolean [] = []"
| "filter_Boolean (None # xs) = filter_Boolean xs"
| "filter_Boolean (Some s # xs) = (if s = [] then filter_Boolean xs else s # filter_Boolean xs)"

text \<open>
  The body of \<open>for (const li of lineItems)\<close>: the meal table is asked first, then the
  appetizer table, then the drink table; the first non-empty answer decides and
  \<open>continue\<close> skips the remaining queries.
\<close>

definition fetch_item :: "(nat \<Rightarrow> bool) \<Rightarrow> line_item_row \<Rightarrow> conn \<Rightarrow> item_json outcome" where
  "fetch_item flt li c =
     and_then (query flt (select_meal_item (line_item_id li)) c)
       (\<lambda>mealRows c1. case mealRows of
          mi # _ \<Rightarrow>
            (Inr \<lparr>j_line_item_id = line_item_id li,
                  j_detail = MealDetail (mi_size mi)
                    (filter_Boolean [mi_meat1 mi, mi_meat2 mi, mi_meat3 mi]) (mi_side mi),
                  j_price = li_price li\<rparr>, c1)
        | [] \<Rightarrow>
            and_then (query flt (select_appetizer_item (line_item_id li)) c1)
              (\<lambda>appetizerRows c2. case appetizerRows of
                 ai # _ \<Rightarrow>
                   (Inr \<lparr>j_line_item_id = line_item_id li,
                         j_detail = AppetizerDetail (ai_name ai),
                         j_price = li_price li\<rparr>, c2)
               | [] \<Rightarrow>
                   and_then (query flt (select_drink_item (line_item_id li)) c2)
                     (\<lambda>drinkRows c3. case drinkRows of
                        di # _ \<Rightarrow>
                          (Inr \<lparr>j_line_item_id = line_item_id li,
                                j_detail = DrinkDetail (di_name di) (di_size di),
                                j_price = li_price li\<rparr>, c3)
                      | [] \<Rightarrow>
                          (Inr \<lparr>j_line_item_id = line_item_id li,
                                j_detail = UnknownDetail,
                                j_price = li_price li\<rparr>, c3))))"

fun fetch_items :: "(nat \<Rightarrow> bool) \<Rightarrow> line_item_row list \<Rightarrow> conn \<Rightarrow> item_json list outcome" where
  "fetch_items flt [] c = (Inr [], c)"
| "fetch_items flt (li # lis) c =
     and_then (fetch_item flt li c)
       (\<lambda>item c1. and_then (fetch_items flt lis c1)
          (\<lambda>items c2. (Inr (item # items), c2)))"

text \<open>
  The response: the receipt row with its \<open>line_items\<close>, status 404 when no receipt has
  the id, status 500 when a query rejects.
\<close>

datatype receipt_response =
    ReceiptFound receipt_row "item_json list"
  | ReceiptNotFound
  | ReceiptError error

definition getReceipt :: "(nat \<Rightarrow> bool) \<Rightarrow> nat \<Rightarrow> conn \<Rightarrow> receipt_response \<times> conn" where
  "getReceipt flt rid c =
     (case and_then (query flt (select_receipt rid) c)
             (\<lambda>receiptRows c1. case receiptRows of
                [] \<Rightarrow> (Inr ReceiptNotFound, c1)
              | r # _ \<Rightarrow>
                  and_then (query flt (select_line_items rid) c1)
                    (\<lambda>lineItems c2. and_then (fetch_items flt lineItems c2)
                       (\<lambda>items c3. (Inr (ReceiptFound r items), c3)))) of
        (Inr resp, c') \<Rightarrow> (resp, c')
      | (Inl err, c') \<Rightarrow> (ReceiptError err, c'))"

section \<open>Reference descriptions\<close>

text \<open>
  Closed-form descriptions against which the handlers are compared below. The variant
  rows \<open>switch (orderItem.type)\<close> writes for the line item \<open>lid\<close>, one list per variant
  table (empty when the entry's type does not select the table):
\<close>

definition meal_rows :: "order_item \<Rightarrow> nat \<Rightarrow> meal_item_row list" where
  "meal_rows e lid =
     (if oi_type e = ''Meal'' then
        (case oi_entrees e of
           None \<Rightarrow> []
         | Some es \<Rightarrow>
             [\<lparr>mi_line_item_id = lid, mi_size = oi_size e, mi_price = oi_price e,
               mi_meat1 = entree_slot es 0, mi_meat2 = entree_slot es 1,
               mi_meat3 = entree_slot es 2, mi_side = oi_side e\<rparr>])
      else [])"

definition drink_rows :: "order_item \<Rightarrow> nat \<Rightarrow> drink_item_row list" where
  "drink_rows e lid =
     (if oi_type e = ''drink'' \<or> oi_type e = ''Drink'' then
        [\<lparr>di_line_item_id = lid, di_name = oi_name e, di_price = oi_price e,
          di_size = Some ''Regular''\<rparr>]
      else [])"

definition appetizer_rows :: "order_item \<Rightarrow> nat \<Rightarrow> appetizer_item_row list" where
  "appetizer_rows e lid =
     (if oi_type e = ''appetizer'' then
        [\<lparr>ai_line_item_id = lid, ai_name = oi_name e, ai_price = oi_price e\<rparr>]
      else [])"

text \<open>
  A \<open>Meal\<close> entry carries its \<open>entrees\<close> array; without it both the variant insert
  and the ingredient lookup throw.
\<close>

definition entrees_present :: "order_item \<Rightarrow> bool" where
  "entrees_present e \<longleftrightarrow> (oi_type e = ''Meal'' \<longrightarrow> oi_entrees e \<noteq> None)"

text \<open>The rows the ingredient lookup of an entry returns on the tables \<open>t\<close>.\<close>

definition ingredient_rows :: "tables \<Rightarrow> order_item \<Rightarrow> (nat \<times> rat) list" where
  "ingredient_rows t e =
     (if oi_type e = ''Meal'' then
        (case oi_entrees e of
           None \<Rightarrow> []
         | Some es \<Rightarrow>
             ingredient_join t
               (\<lambda>m. Some (m_name m) \<in>
                      set [entree_slot es 0, entree_slot es 1, entree_slot es 2, oi_side e]))
      else ingredient_join t (\<lambda>m. Some (m_name m) = oi_name e))"

text \<open>
  The stock table after every row of \<open>rows\<close> has been charged \<open>q\<close> times: each
  result row \<open>(inventory_id, quantity)\<close> takes \<open>quantity * q\<close> from the stock rows with
  that id.
\<close>

definition charged :: "(nat \<times> rat) list \<Rightarrow> int \<Rightarrow> inventory_row list \<Rightarrow> inventory_row list" where
  "charged rows q stock =
     map (\<lambda>r. r\<lparr>inv_quantity := inv_quantity r -
                  (\<Sum>row \<leftarrow> rows. if fst row = inv_inventory_id r then snd row * of_int q else 0)\<rparr>)
         stock"

text \<open>
  What the retrieval handler derives for a line item id from the three variant tables,
  and the \<open>(detail, price)\<close> list it returns for a receipt id, as pure functions of the
  tables.
\<close>

definition first_match ::
  "meal_item_row list \<Rightarrow> appetizer_item_row list \<Rightarrow> drink_item_row list \<Rightarrow> item_detail" where
  "first_match mealRows appetizerRows drinkRows =
     (case mealRows of
        mi # _ \<Rightarrow> MealDetail (mi_size mi)
                   (filter_Boolean [mi_meat1 mi, mi_meat2 mi, mi_meat3 mi]) (mi_side mi)
      | [] \<Rightarrow>
          (case appetizerRows of
             ai # _ \<Rightarrow> AppetizerDetail (ai_name ai)
           | [] \<Rightarrow>
               (case drinkRows of
                  di # _ \<Rightarrow> DrinkDetail (di_name di) (di_size di)
                | [] \<Rightarrow> UnknownDetail)))"

definition detail_of :: "tables \<Rightarrow> nat \<Rightarrow> item_detail" where
  "detail_of t lid =
     first_match (filter (\<lambda>mi. mi_line_item_id mi = lid) (meal_item t))
                 (filter (\<lambda>ai. ai_line_item_id ai = lid) (appetizer_item t))
                 (filter (\<lambda>di. di_line_item_id di = lid) (drink_item t))"

definition item_of :: "tables \<Rightarrow> line_item_row \<Rightarrow> item_json" where
  "item_of t li =
     \<lparr>j_line_item_id = line_item_id li, j_detail = detail_of t (line_item_id li),
      j_price = li_price li\<rparr>"

definition receipt_items :: "tables \<Rightarrow> nat \<Rightarrow> item_json list" where
  "receipt_items t rid = map (item_of t) (filter (\<lambda>li. li_receipt_id li = rid) (line_item t))"



fun line_items_of :: "receipt_response \<Rightarrow> item_json list" where
  "line_items_of (ReceiptFound r items) = items"
| "line_items_of ReceiptNotFound = []"
| "line_items_of (ReceiptError err) = []"






text \<open>
  Two properties of a run from \<open>c\<close> with outcome \<open>m\<close>, whatever the outcome is.
  \<open>held\<close>: an open transaction is still open and the committed tables are untouched.
  \<open>clean\<close>: statements are only ever added to the count, and a run that ends without
  error met no fault among the statements it issued.
\<close>

definition held :: "conn \<Rightarrow> 'a outcome \<Rightarrow> bool" where
  "held c m \<longleftrightarrow> (txn c \<noteq> None \<longrightarrow> txn (snd m) \<noteq> None \<and> committed (snd m) = committed c)"


section \<open>Sample data\<close>

text \<open>
  A small store: three menu entries with one ingredient each (Orange Chicken takes 1 unit
  of stock item 10, Fried Rice half a unit of item 11, Medium Drink 2 units of item 12),
  no receipts yet, and an idle connection on it.
\<close>

definition sample_tables :: tables where
  "sample_tables =
     \<lparr>receipt = [], line_item = [], meal_item = [], drink_item = [], appetizer_item = [],
      menu = [\<lparr>menu_id = 1, m_name = ''Orange Chicken''\<rparr>,
              \<lparr>menu_id = 2, m_name = ''Fried Rice''\<rparr>,
              \<lparr>menu_id = 3, m_name = ''Medium Drink''\<rparr>],
      recipe_ingredient = [\<lparr>ri_recipe_id = 1, ri_ingredient_id = 1\<rparr>,
                           \<lparr>ri_recipe_id = 2, ri_ingredient_id = 2\<rparr>,
                           \<lparr>ri_recipe_id = 3, ri_ingredient_id = 3\<rparr>],
      ingredient = [\<lparr>i_ingredient_id = 1, i_inventory_id = 10, i_quantity = 1\<rparr>,
                    \<lparr>i_ingredient_id = 2, i_inventory_id = 11, i_quantity = 1 / 2\<rparr>,
                    \<lparr>i_ingredient_id = 3, i_inventory_id = 12, i_quantity = 2\<rparr>],
      inventory = [\<lparr>inv_inventory_id = 10, inv_quantity = 40\<rparr>,
                   \<lparr>inv_inventory_id = 11, inv_quantity = 25\<rparr>,
                   \<lparr>inv_inventory_id = 12, inv_quantity = 100\<rparr>]\<rparr>"

definition idle :: "tables \<Rightarrow> conn" where
  "idle t = \<lparr>committed = t, txn = None, receipt_seq = 1, line_item_seq = 1, issued = 0\<rparr>"

definition no_faults :: "nat \<Rightarrow> bool" where
  "no_faults k = False"

definition sample_drink :: order_item where
  "sample_drink =
     \<lparr>oi_type = ''Drink'', oi_name = Some ''Medium Drink'', oi_price = 199 / 100,
      oi_quantity = Some 3, oi_entrees = None, oi_side = None, oi_size = Some ''Large''\<rparr>"


definition sample_side_only :: order_item where
  "sample_side_only =
     \<lparr>oi_type = ''Meal'', oi_name = None, oi_price = 5,
      oi_quantity = Some 2, oi_entrees = Some [None, None, None],
      oi_side = Some ''Fried Rice'', oi_size = Some ''Plate''\<rparr>"

definition sample_zero :: order_item where
  "sample_zero =
     \<lparr>oi_type = ''drink'', oi_name = Some ''Medium Drink'', oi_price = 199 / 100,
      oi_quantity = Some 0, oi_entrees = None, oi_side = None, oi_size = None\<rparr>"

definition sample_appetizer :: order_item where
  "sample_appetizer =
     \<lparr>oi_type = ''Appetizer'', oi_name = Some ''Spring Roll'', oi_price = 2,
      oi_quantity = Some 1, oi_entrees = None, oi_side = None, oi_size = None\<rparr>"


text \<open>
  A store after some sales: receipt 1 with four line items, of which 1 is a meal, 2 a
  drink, 3 has a row in the appetizer table and one in the drink table, and 4 has no
  variant row.
\<close>

definition sold_tables :: tables where
  "sold_tables = sample_tables
     \<lparr>receipt := [\<lparr>receipt_id = 1, totalamount = 20\<rparr>],
      line_item := [\<lparr>line_item_id = 1, li_receipt_id = 1, li_price = 8\<rparr>,
                    \<lparr>line_item_id = 2, li_receipt_id = 1, li_price = 2\<rparr>,
                    \<lparr>line_item_id = 3, li_receipt_id = 1, li_price = 3\<rparr>,
                    \<lparr>line_item_id = 4, li_receipt_id = 1, li_price = 7\<rparr>],
      meal_item := [\<lparr>mi_line_item_id = 1, mi_size = Some ''Bowl'', mi_price = 8,
                     mi_meat1 = Some ''Orange Chicken'', mi_meat2 = None, mi_meat3 = None,
                     mi_side = Some ''Fried Rice''\<rparr>],
      drink_item := [\<lparr>di_line_item_id = 2, di_name = Some ''Medium Drink'', di_price = 2,
                      di_size = Some ''Regular''\<rparr>,
                     \<lparr>di_line_item_id = 3, di_name = Some ''Medium Drink'', di_price = 3,
                      di_size = Some ''Regular''\<rparr>],
      appetizer_item := [\<lparr>ai_line_item_id = 3, ai_name = Some ''Spring Roll'', ai_price = 3\<rparr>]\<rparr>"

section \<open>Properties\<close>


subsection \<open>Statements and sequencing\<close>

lemma current_store [simp]: "current (store t c) = t"
  by (simp add: current_def store_def split: option.splits)

lemma issued_store [simp]: "issued (store t c) = issued c"
  by (simp add: store_def split: option.splits)

lemma receipt_seq_store [simp]: "receipt_seq (store t c) = receipt_seq c"
  by (simp add: store_def split: option.splits)

lemma line_item_seq_store [simp]: "line_item_seq (store t c) = line_item_seq c"
  by (simp add: store_def split: option.splits)

lemma txn_store [simp]: "txn (store t c) = map_option (\<lambda>_. t) (txn c)"
  by (simp add: store_def split: option.splits)

lemma committed_store [simp]:
  "committed (store t c) = (if txn c = None then t else committed c)"
  by (simp add: store_def split: option.splits)

lemma current_simps [simp]:
  "current (c\<lparr>issued := k\<rparr>) = current c"
  "current (c\<lparr>receipt_seq := k\<rparr>) = current c"
  "current (c\<lparr>line_item_seq := k\<rparr>) = current c"
  by (simp_all add: current_def split: option.splits)

lemma query_Inr:
  "query flt run c = (Inr r, c') \<longleftrightarrow>
     \<not> flt (issued c) \<and> run (c\<lparr>issued := Suc (issued c)\<rparr>) = (r, c')"
  by (auto simp add: query_def Let_def split: prod.splits)


lemma and_then_Inr:
  "and_then m f = (Inr r, c') \<longleftrightarrow> (\<exists>x c1. m = (Inr x, c1) \<and> f x c1 = (Inr r, c'))"
  by (cases m) (auto simp add: and_then_def split: sum.splits)




lemmas stmt_defs =
  insert_receipt_def insert_line_item_def insert_meal_item_def insert_drink_item_def
  insert_appetizer_item_def select_ingredients_in_def select_ingredients_eq_def
  update_inventory_def

subsection \<open>Transactions: what a run may touch\<close>

lemma held_return: "held c (Inr x, c)"
  by (simp add: held_def)

lemma held_throw: "held c (Inl e, c)"
  by (simp add: held_def)

lemma held_and_then:
  assumes "held c m" and "\<And>x d. held d (f x d)"
  shows "held c (and_then m f)"
proof (cases m)
  case (Pair a d)
  show ?thesis
  proof (cases a)
    case (Inl e)
    with Pair assms(1) show ?thesis by (simp add: and_then_def held_def)
  next
    case (Inr x)
    with Pair assms(1) assms(2)[of d x] show ?thesis by (auto simp add: and_then_def held_def)
  qed
qed

lemma held_query:
  assumes "\<And>d. txn d \<noteq> None \<Longrightarrow> txn (snd (run d)) \<noteq> None \<and> committed (snd (run d)) = committed d"
  shows "held c (query flt run c)"
proof (cases "flt (issued c)")
  case True
  then show ?thesis by (simp add: held_def query_def Let_def)
next
  case False
  with assms[of "c\<lparr>issued := Suc (issued c)\<rparr>"] show ?thesis
    by (auto simp add: held_def query_def Let_def split: prod.splits)
qed





lemma held_insert_variant: "held c (insert_variant flt lid e c)"
  unfolding insert_variant_def
  by (auto intro!: held_query held_return held_throw
           simp add: stmt_defs Let_def split: option.splits)


lemma held_insert_units: "held c (insert_units flt rid e k c)"
  by (induction k arbitrary: c)
     (auto intro!: held_and_then held_query held_return held_insert_variant
           simp add: stmt_defs Let_def)


lemma held_fetch_ingredients: "held c (fetch_ingredients flt e c)"
  unfolding fetch_ingredients_def
  by (auto intro!: held_query held_throw simp add: stmt_defs split: option.splits)


lemma held_update_rows: "held c (update_rows flt q rows c)"
  by (induction rows arbitrary: c)
     (auto intro!: held_and_then held_query held_return
           simp add: stmt_defs Let_def)


lemma held_process_item: "held c (process_item flt rid e c)"
  unfolding process_item_def Let_def
  by (intro held_and_then held_insert_units held_fetch_ingredients held_update_rows)


lemma held_process_items: "held c (process_items flt rid es c)"
  by (induction es arbitrary: c)
     (auto intro!: held_and_then held_return held_process_item)


lemma held_order_body: "held c (order_body flt ol tp c)"
  unfolding order_body_def
  by (auto intro!: held_and_then held_query held_return held_process_items
           simp add: stmt_defs Let_def)





lemma order_try_success:
  assumes "order_try flt ol tp c = (Inr rid, d)"
  shows "txn d = None \<and>
         (\<exists>c2. order_body flt ol tp (snd (sql_begin (c\<lparr>issued := Suc (issued c)\<rparr>))) = (Inr rid, c2) \<and>
               committed d = current c2)"
proof -
  let ?c1 = "snd (sql_begin (c\<lparr>issued := Suc (issued c)\<rparr>))"
  have c1: "txn ?c1 \<noteq> None"
    by (simp add: sql_begin_def split: option.splits)
  from assms obtain c2 where
    body: "order_body flt ol tp ?c1 = (Inr rid, c2)" and
    commit: "query flt sql_commit c2 = (Inr (), d)"
    unfolding order_try_def
    by (auto simp add: and_then_Inr query_Inr sql_begin_def)
  from held_order_body[of ?c1 flt ol tp] body c1 have "txn c2 \<noteq> None"
    by (simp add: held_def)
  with commit have "txn d = None \<and> committed d = current c2"
    by (auto simp add: query_Inr sql_commit_def current_def split: option.splits)
  with body show ?thesis by blast
qed



subsection \<open>The effect of a successful checkout step\<close>

lemma insert_variant_effect:
  assumes "insert_variant flt lid e c = (Inr u, c')"
  shows "current c' = (current c)
           \<lparr>meal_item := meal_item (current c) @ meal_rows e lid,
            drink_item := drink_item (current c) @ drink_rows e lid,
            appetizer_item := appetizer_item (current c) @ appetizer_rows e lid\<rparr>"
    and "line_item_seq c' = line_item_seq c" and "receipt_seq c' = receipt_seq c"
  using assms
  by (auto simp add: insert_variant_def query_Inr stmt_defs Let_def
                     meal_rows_def drink_rows_def appetizer_rows_def
           split: if_splits option.splits)

lemma insert_line_item_effect:
  assumes "query flt (insert_line_item rid p) c = (Inr lid, c')"
  shows "lid = line_item_seq c"
    and "current c' = (current c)
           \<lparr>line_item := line_item (current c) @
              [\<lparr>line_item_id = line_item_seq c, li_receipt_id = rid, li_price = p\<rparr>]\<rparr>"
    and "line_item_seq c' = Suc (line_item_seq c)" and "receipt_seq c' = receipt_seq c"
  using assms by (auto simp add: query_Inr stmt_defs Let_def)

lemma insert_units_Suc:
  assumes "insert_units flt rid e (Suc k) c = (Inr u, c')"
  obtains lid c1 v c2 where
    "query flt (insert_line_item rid (oi_price e)) c = (Inr lid, c1)"
    "insert_variant flt lid e c1 = (Inr v, c2)"
    "insert_units flt rid e k c2 = (Inr u, c')"
  using assms by (auto simp add: and_then_Inr)

lemma insert_units_effect:
  "insert_units flt rid e k c = (Inr u, c') \<Longrightarrow>
     current c' = (current c)
       \<lparr>line_item := line_item (current c) @
          map (\<lambda>lid. \<lparr>line_item_id = lid, li_receipt_id = rid, li_price = oi_price e\<rparr>)
              [line_item_seq c ..< line_item_seq c + k],
        meal_item := meal_item (current c) @
          concat (map (meal_rows e) [line_item_seq c ..< line_item_seq c + k]),
        drink_item := drink_item (current c) @
          concat (map (drink_rows e) [line_item_seq c ..< line_item_seq c + k]),
        appetizer_item := appetizer_item (current c) @
          concat (map (appetizer_rows e) [line_item_seq c ..< line_item_seq c + k])\<rparr> \<and>
     line_item_seq c' = line_item_seq c + k \<and> receipt_seq c' = receipt_seq c"
proof (induction k arbitrary: c)
  case 0
  then show ?case by simp
next
  case (Suc k)
  from Suc.prems obtain lid c1 v c2 where
    q: "query flt (insert_line_item rid (oi_price e)) c = (Inr lid, c1)" and
    v: "insert_variant flt lid e c1 = (Inr v, c2)" and
    r: "insert_units flt rid e k c2 = (Inr u, c')"
    by (rule insert_units_Suc)
  note q' = insert_line_item_effect[OF q]
  note v' = insert_variant_effect[OF v]
  have s: "line_item_seq c2 = Suc (line_item_seq c)" using q'(3) v'(2) by simp
  have up: "[line_item_seq c ..< line_item_seq c + Suc k] =
            line_item_seq c # [Suc (line_item_seq c) ..< Suc (line_item_seq c) + k]"
    by (simp add: upt_conv_Cons)
  from Suc.IH[OF r] show ?case
    unfolding up s by (simp add: v'(1,3) q'(1,2,4))
qed

lemma ingredient_join_upd [simp]:
  "ingredient_join (t\<lparr>line_item := a, meal_item := b, drink_item := d, appetizer_item := f\<rparr>) wh =
   ingredient_join t wh"
  by (simp add: ingredient_join_def)

lemma ingredient_rows_upd [simp]:
  "ingredient_rows (t\<lparr>line_item := a, meal_item := b, drink_item := d, appetizer_item := f\<rparr>) e =
   ingredient_rows t e"
  by (simp add: ingredient_rows_def split: option.splits)

lemma fetch_ingredients_effect:
  assumes "fetch_ingredients flt e c = (Inr rows, c')"
  shows "rows = ingredient_rows (current c) e" and "current c' = current c"
    and "line_item_seq c' = line_item_seq c" and "receipt_seq c' = receipt_seq c"
  using assms
  by (auto simp add: fetch_ingredients_def query_Inr stmt_defs ingredient_rows_def
           split: if_splits option.splits)

lemma charged_Nil [simp]: "charged [] q stock = stock"
  by (induction stock) (simp_all add: charged_def)

lemma charged_Cons:
  "charged (row # rows) q stock =
   charged rows q
     (map (\<lambda>r. if inv_inventory_id r = fst row
               then r\<lparr>inv_quantity := inv_quantity r - snd row * of_int q\<rparr> else r) stock)"
  by (induction stock) (simp_all add: charged_def algebra_simps)

lemma update_rows_effect:
  "update_rows flt q rows c = (Inr u, c') \<Longrightarrow>
     current c' = (current c)\<lparr>inventory := charged rows q (inventory (current c))\<rparr> \<and>
     line_item_seq c' = line_item_seq c \<and> receipt_seq c' = receipt_seq c"
proof (induction rows arbitrary: c)
  case Nil
  then show ?case by simp
next
  case (Cons row rows)
  from Cons.prems obtain v c1 where
    q: "query flt (update_inventory (snd row * of_int q) (fst row)) c = (Inr v, c1)" and
    r: "update_rows flt q rows c1 = (Inr u, c')"
    by (auto simp add: and_then_Inr)
  from q have c1: "current c1 = (current c)\<lparr>inventory :=
        map (\<lambda>r. if inv_inventory_id r = fst row
                  then r\<lparr>inv_quantity := inv_quantity r - snd row * of_int q\<rparr> else r)
            (inventory (current c))\<rparr>"
      "line_item_seq c1 = line_item_seq c" "receipt_seq c1 = receipt_seq c"
    by (auto simp add: query_Inr stmt_defs Let_def)
  from Cons.IH[OF r] show ?case by (simp add: c1 charged_Cons)
qed

lemma process_item_effect:
  assumes "process_item flt rid e c = (Inr u, c')"
  shows "current c' = (current c)
       \<lparr>line_item := line_item (current c) @
          map (\<lambda>lid. \<lparr>line_item_id = lid, li_receipt_id = rid, li_price = oi_price e\<rparr>)
              [line_item_seq c ..< line_item_seq c + nat (quantity_of e)],
        meal_item := meal_item (current c) @
          concat (map (meal_rows e) [line_item_seq c ..< line_item_seq c + nat (quantity_of e)]),
        drink_item := drink_item (current c) @
          concat (map (drink_rows e) [line_item_seq c ..< line_item_seq c + nat (quantity_of e)]),
        appetizer_item := appetizer_item (current c) @
          concat (map (appetizer_rows e)
                   [line_item_seq c ..< line_item_seq c + nat (quantity_of e)]),
        inventory := charged (ingredient_rows (current c) e) (quantity_of e)
                       (inventory (current c))\<rparr>"
    and "line_item_seq c' = line_item_seq c + nat (quantity_of e)"
    and "receipt_seq c' = receipt_seq c"
proof -
  from assms obtain v c1 rows c2 where
    a: "insert_units flt rid e (nat (quantity_of e)) c = (Inr v, c1)" and
    b: "fetch_ingredients flt e c1 = (Inr rows, c2)" and
    d: "update_rows flt (quantity_of e) rows c2 = (Inr u, c')"
    by (auto simp add: process_item_def Let_def and_then_Inr)
  note a' = insert_units_effect[OF a]
  note b' = fetch_ingredients_effect[OF b]
  note d' = update_rows_effect[OF d]
  show "line_item_seq c' = line_item_seq c + nat (quantity_of e)"
    using a' b'(3) d' by simp
  show "receipt_seq c' = receipt_seq c"
    using a' b'(4) d' by simp
  show "current c' = (current c)
       \<lparr>line_item := line_item (current c) @
          map (\<lambda>lid. \<lparr>line_item_id = lid, li_receipt_id = rid, li_price = oi_price e\<rparr>)
              [line_item_seq c ..< line_item_seq c + nat (quantity_of e)],
        meal_item := meal_item (current c) @
          concat (map (meal_rows e) [line_item_seq c ..< line_item_seq c + nat (quantity_of e)]),
        drink_item := drink_item (current c) @
          concat (map (drink_rows e) [line_item_seq c ..< line_item_seq c + nat (quantity_of e)]),
        appetizer_item := appetizer_item (current c) @
          concat (map (appetizer_rows e)
                   [line_item_seq c ..< line_item_seq c + nat (quantity_of e)]),
        inventory := charged (ingredient_rows (current c) e) (quantity_of e)
                       (inventory (current c))\<rparr>"
    using a' b'(1,2) d' by simp
qed


subsection \<open>Runs without faults return\<close>

lemma query_no_faults:
  "query no_faults run c =
     (Inr (fst (run (c\<lparr>issued := Suc (issued c)\<rparr>))), snd (run (c\<lparr>issued := Suc (issued c)\<rparr>)))"
  by (simp add: query_def no_faults_def Let_def split: prod.splits)

lemma fst_and_then: "fst m = Inr x \<Longrightarrow> fst (and_then m f) = fst (f x (snd m))"
  by (cases m) (simp add: and_then_def)

lemma insert_variant_no_faults:
  "entrees_present e \<Longrightarrow> fst (insert_variant no_faults lid e c) = Inr ()"
  by (auto simp add: insert_variant_def entrees_present_def query_no_faults split: option.splits)

lemma insert_units_no_faults:
  "entrees_present e \<Longrightarrow> fst (insert_units no_faults rid e k c) = Inr ()"
proof (induction k arbitrary: c)
  case 0
  then show ?case by simp
next
  case (Suc k)
  then show ?case
    by (simp add: fst_and_then[where x = "line_item_seq c"] query_no_faults insert_line_item_def
                  Let_def fst_and_then[where x = "()"] insert_variant_no_faults)
qed

lemma fetch_ingredients_no_faults:
  "entrees_present e \<Longrightarrow>
     fst (fetch_ingredients no_faults e c) = Inr (ingredient_rows (current c) e)"
  by (auto simp add: fetch_ingredients_def entrees_present_def query_no_faults stmt_defs
                     ingredient_rows_def split: option.splits)

lemma update_rows_no_faults: "fst (update_rows no_faults q rows c) = Inr ()"
  by (induction rows arbitrary: c)
     (simp_all add: fst_and_then[where x = "()"] query_no_faults)

lemma process_item_no_faults:
  "entrees_present e \<Longrightarrow> fst (process_item no_faults rid e c) = Inr ()"
  by (simp add: process_item_def Let_def fst_and_then[where x = "()"] insert_units_no_faults
                fst_and_then[OF fetch_ingredients_no_faults] update_rows_no_faults)

lemma process_items_no_faults:
  "list_all entrees_present es \<Longrightarrow> fst (process_items no_faults rid es c) = Inr ()"
  by (induction es arbitrary: c)
     (simp_all add: fst_and_then[where x = "()"] process_item_no_faults)

lemma order_body_no_faults:
  "list_all entrees_present es \<Longrightarrow> fst (order_body no_faults es tp c) = Inr (receipt_seq c)"
  by (simp add: order_body_def fst_and_then[where x = "receipt_seq c"] query_no_faults
                insert_receipt_def Let_def fst_and_then[where x = "()"] process_items_no_faults)

lemma processOrder_no_faults:
  "list_all entrees_present es \<Longrightarrow>
     fst (processOrder no_faults es tp c) = OrderSuccess (receipt_seq c)"
proof -
  assume ok: "list_all entrees_present es"
  have rs: "receipt_seq (snd (sql_begin (c\<lparr>issued := Suc (issued c)\<rparr>))) = receipt_seq c"
    by (cases "txn c") (simp_all add: sql_begin_def)
  have "fst (order_try no_faults es tp c) = Inr (receipt_seq c)"
    by (simp add: order_try_def fst_and_then[where x = "()"] query_no_faults
                  fst_and_then[OF order_body_no_faults[OF ok]] rs)
  then show ?thesis
    by (cases "order_try no_faults es tp c") (simp add: processOrder_def)
qed



subsection \<open>Line items, variant rows and stock of one cart entry\<close>






lemma current_idle [simp]: "current (idle t) = t"
  by (simp add: current_def idle_def)

lemma seqs_idle [simp]: "line_item_seq (idle t) = 1" "receipt_seq (idle t) = 1"
  by (simp_all add: idle_def)


lemma pair_fst: "fst m = a \<Longrightarrow> m = (a, snd m)"
  by (cases m) simp








text \<open>
  C9. Null entrees. For a \<open>Meal\<close> entry whose \<open>entrees\<close> array is
  \<open>[null, null, null]\<close> the ingredient lookup is the lookup by the side's name alone:
  the three null parameters match no menu name, so the rows it returns, and with them the
  stock rows that processing the entry changes, are those reached from the side's recipe.
\<close>

theorem null_entrees_lookup:
  assumes "oi_type e = ''Meal''" and "oi_entrees e = Some [None, None, None]"
  shows "fetch_ingredients flt e c = query flt (select_ingredients_eq (oi_side e)) c \<and>
         (\<forall>u c'. process_item flt rid e c = (Inr u, c') \<longrightarrow>
            inventory (current c') =
              charged (ingredient_join (current c) (\<lambda>m. Some (m_name m) = oi_side e))
                (quantity_of e) (inventory (current c)))"
proof -
  have sel: "select_ingredients_in [None, None, None, oi_side e] =
             select_ingredients_eq (oi_side e)"
    by (rule ext) (simp add: select_ingredients_in_def select_ingredients_eq_def)
  have rows: "\<And>t. ingredient_rows t e = ingredient_join t (\<lambda>m. Some (m_name m) = oi_side e)"
    using assms by (simp add: ingredient_rows_def entree_slot_def)
  have "fetch_ingredients flt e c = query flt (select_ingredients_eq (oi_side e)) c"
    using assms by (simp add: fetch_ingredients_def entree_slot_def sel)
  moreover have "\<And>u c'. process_item flt rid e c = (Inr u, c') \<Longrightarrow>
            inventory (current c') =
              charged (ingredient_join (current c) (\<lambda>m. Some (m_name m) = oi_side e))
                (quantity_of e) (inventory (current c))"
    using process_item_effect(1) by (simp add: rows)
  ultimately show ?thesis by blast
qed

lemma side_rows:
  "ingredient_join sample_tables (\<lambda>m. m_name m = ''Fried Rice'') = [(11, 1 / 2)]"
  by (simp add: ingredient_join_def sample_tables_def)

lemma sample_inventory:
  "inventory sample_tables =
     [\<lparr>inv_inventory_id = 10, inv_quantity = 40\<rparr>,
      \<lparr>inv_inventory_id = 11, inv_quantity = 25\<rparr>,
      \<lparr>inv_inventory_id = 12, inv_quantity = 100\<rparr>]"
  by (simp add: sample_tables_def)

theorem null_entrees_lookup_witness:
  "inventory (current (snd (process_item no_faults 1 sample_side_only (idle sample_tables)))) =
     [\<lparr>inv_inventory_id = 10, inv_quantity = 40\<rparr>,
      \<lparr>inv_inventory_id = 11, inv_quantity = 24\<rparr>,
      \<lparr>inv_inventory_id = 12, inv_quantity = 100\<rparr>]"
proof -
  let ?m = "process_item no_faults 1 sample_side_only (idle sample_tables)"
  have "fst ?m = Inr ()"
    by (simp add: process_item_no_faults entrees_present_def sample_side_only_def)
  then have run: "?m = (Inr (), snd ?m)" by (rule pair_fst)
  have h: "oi_type sample_side_only = ''Meal''"
      "oi_entrees sample_side_only = Some [None, None, None]"
      "oi_side sample_side_only = Some ''Fried Rice''"
      "quantity_of sample_side_only = 2"
    by (simp_all add: sample_side_only_def quantity_of_def)
  from null_entrees_lookup[OF h(1,2), of no_faults "idle sample_tables" 1] run
  have "inventory (current (snd ?m)) =
          charged (ingredient_join sample_tables (\<lambda>m. Some (m_name m) = Some ''Fried Rice''))
            2 (inventory sample_tables)"
    by (simp add: h(3,4))
  then show ?thesis
    by (simp add: side_rows sample_inventory charged_def)
qed

lemma insert_variant_quantity [simp]:
  "insert_variant flt lid (e\<lparr>oi_quantity := q\<rparr>) c = insert_variant flt lid e c"
  by (simp add: insert_variant_def split: option.splits)

lemma insert_units_quantity [simp]:
  "insert_units flt rid (e\<lparr>oi_quantity := q\<rparr>) k = insert_units flt rid e k"
proof (induction k)
  case 0
  show ?case by (simp add: fun_eq_iff)
next
  case (Suc k)
  show ?case
  proof (rule ext)
    fix c
    show "insert_units flt rid (e\<lparr>oi_quantity := q\<rparr>) (Suc k) c =
          insert_units flt rid e (Suc k) c"
      by (simp add: Suc.IH)
  qed
qed

lemma fetch_ingredients_quantity [simp]:
  "fetch_ingredients flt (e\<lparr>oi_quantity := q\<rparr>) c = fetch_ingredients flt e c"
  by (simp add: fetch_ingredients_def split: option.splits)




subsection \<open>The receipt row\<close>

lemma process_items_receipt:
  "process_items flt rid es c = (Inr u, c') \<Longrightarrow>
     receipt (current c') = receipt (current c) \<and> receipt_seq c' = receipt_seq c"
proof (induction es arbitrary: c)
  case Nil
  then show ?case by simp
next
  case (Cons e es)
  from Cons.prems obtain v c1 where
    p: "process_item flt rid e c = (Inr v, c1)" and
    r: "process_items flt rid es c1 = (Inr u, c')"
    by (auto simp add: and_then_Inr)
  from Cons.IH[OF r] process_item_effect(1,3)[OF p] show ?case by simp
qed

lemma order_body_receipt:
  assumes "order_body flt es tp c = (Inr rid, c')"
  shows "rid = receipt_seq c"
    and "receipt (current c') =
           receipt (current c) @ [\<lparr>receipt_id = receipt_seq c, totalamount = tp\<rparr>]"
proof -
  from assms obtain c1 u where
    q: "query flt (insert_receipt tp) c = (Inr rid, c1)" and
    p: "process_items flt rid es c1 = (Inr u, c')"
    by (auto simp add: order_body_def and_then_Inr)
  from q have c1: "rid = receipt_seq c"
      "receipt (current c1) =
         receipt (current c) @ [\<lparr>receipt_id = receipt_seq c, totalamount = tp\<rparr>]"
    by (auto simp add: query_Inr insert_receipt_def Let_def)
  show "rid = receipt_seq c" by (rule c1(1))
  from process_items_receipt[OF p] c1(2)
  show "receipt (current c') =
           receipt (current c) @ [\<lparr>receipt_id = receipt_seq c, totalamount = tp\<rparr>]"
    by simp
qed

lemma current_begin [simp]:
  "current (snd (sql_begin (c\<lparr>issued := k\<rparr>))) = current c"
  by (cases "txn c") (simp_all add: sql_begin_def current_def)

lemma processOrder_success:
  assumes "processOrder flt es tp c = (OrderSuccess rid, c')"
  obtains c2 where
    "order_body flt es tp (snd (sql_begin (c\<lparr>issued := Suc (issued c)\<rparr>))) = (Inr rid, c2)"
    "committed c' = current c2" "txn c' = None"
proof -
  obtain a d where t: "order_try flt es tp c = (a, d)" by force
  with assms have "a = Inr rid" "d = c'"
    by (cases a; simp add: processOrder_def)+
  with t order_try_success[of flt es tp c rid c'] that show ?thesis by blast
qed

text \<open>
  C7. The stored total is the submitted one. A successful checkout adds exactly one
  receipt row, with the returned id and with \<open>totalamount\<close> equal to the
  \<open>totalPrice\<close> of the request; the line item prices play no part in it.
\<close>

theorem receipt_total_is_submitted:
  assumes "processOrder flt orderList totalPrice c = (OrderSuccess rid, c')"
    and "txn c = None"
  shows "receipt (committed c') =
           receipt (committed c) @ [\<lparr>receipt_id = rid, totalamount = totalPrice\<rparr>]"
proof -
  from assms(1) obtain c2 where
    b: "order_body flt orderList totalPrice
          (snd (sql_begin (c\<lparr>issued := Suc (issued c)\<rparr>))) = (Inr rid, c2)" and
    k: "committed c' = current c2"
    by (rule processOrder_success)
  from order_body_receipt[OF b] k assms(2) show ?thesis
    by (simp add: sql_begin_def current_def)
qed

theorem receipt_total_is_submitted_witness:
  "receipt (committed (snd (processOrder no_faults [sample_drink] 1 (idle sample_tables)))) =
     [\<lparr>receipt_id = 1, totalamount = 1\<rparr>] \<and>
   oi_price sample_drink * of_int (quantity_of sample_drink) = 597 / 100"
proof -
  let ?m = "processOrder no_faults [sample_drink] 1 (idle sample_tables)"
  have "fst ?m = OrderSuccess 1"
    by (simp add: processOrder_no_faults entrees_present_def sample_drink_def)
  then have run: "?m = (OrderSuccess 1, snd ?m)" by (rule pair_fst)
  have idle: "txn (idle sample_tables) = None" "committed (idle sample_tables) = sample_tables"
    by (simp_all add: idle_def)
  have r: "receipt sample_tables = []" by (simp add: sample_tables_def)
  from receipt_total_is_submitted[OF run idle(1)]
  have "receipt (committed (snd ?m)) = [\<lparr>receipt_id = 1, totalamount = 1\<rparr>]"
    by (simp add: idle(2) r)
  then show ?thesis by (simp add: sample_drink_def quantity_of_def)
qed

subsection \<open>The variant row of a drink and of an appetizer\<close>

text \<open>
  C5 (as stated, refuted). The drink row written for an entry with \<open>size = "Large"\<close>
  carries the size label \<open>Regular\<close>, not the entry's.
\<close>

theorem drink_size_counterexample:
  "drink_item (current (snd (insert_variant no_faults 1 sample_drink (idle sample_tables)))) =
     [\<lparr>di_line_item_id = 1, di_name = Some ''Medium Drink'', di_price = 199 / 100,
       di_size = Some ''Regular''\<rparr>] \<and>
   map di_size
     (drink_item (current (snd (insert_variant no_faults 1 sample_drink (idle sample_tables))))) \<noteq>
     [oi_size sample_drink]"
  by (simp add: insert_variant_def query_no_faults insert_drink_item_def Let_def
                sample_drink_def sample_tables_def)

text \<open>
  C5 (amended). For a cart entry of type \<open>Drink\<close> or \<open>drink\<close> the row added to
  \<open>drink_item\<close> carries the new line item id, the entry's name and the entry's unit
  price verbatim, and the fixed size label \<open>Regular\<close>.
\<close>

theorem drink_row_fields:
  assumes "oi_type e = ''Drink'' \<or> oi_type e = ''drink''"
    and "insert_variant flt lid e c = (Inr u, c')"
  shows "drink_item (current c') = drink_item (current c) @
           [\<lparr>di_line_item_id = lid, di_name = oi_name e, di_price = oi_price e,
             di_size = Some ''Regular''\<rparr>]"
  using assms(1) insert_variant_effect(1)[OF assms(2)]
  by (auto simp add: drink_rows_def)

theorem drink_row_fields_witness:
  "drink_item (current (snd (insert_variant no_faults 7 sample_zero (idle sample_tables)))) =
     [\<lparr>di_line_item_id = 7, di_name = Some ''Medium Drink'', di_price = 199 / 100,
       di_size = Some ''Regular''\<rparr>]"
proof -
  let ?m = "insert_variant no_faults 7 sample_zero (idle sample_tables)"
  have "fst ?m = Inr ()"
    by (simp add: insert_variant_no_faults entrees_present_def sample_zero_def)
  then have run: "?m = (Inr (), snd ?m)" by (rule pair_fst)
  have h: "oi_type sample_zero = ''Drink'' \<or> oi_type sample_zero = ''drink''"
    by (simp add: sample_zero_def)
  have f: "oi_name sample_zero = Some ''Medium Drink''" "oi_price sample_zero = 199 / 100"
      "drink_item sample_tables = []"
    by (simp_all add: sample_zero_def sample_tables_def)
  from drink_row_fields[OF h run] show ?thesis by (simp add: f)
qed

text \<open>
  C4 (the code at the failing input). For an entry whose type is spelled \<open>Appetizer\<close>
  no \<open>case\<close> label of the dispatch matches: the variant step sends no statement and
  changes nothing, so the line item inserted just before it stays without a variant row.
\<close>

theorem capital_appetizer_without_variant:
  "insert_variant flt lid (e\<lparr>oi_type := ''Appetizer''\<rparr>) c = (Inr (), c) \<and>
   appetizer_item (current (snd (process_item no_faults 1 sample_appetizer (idle sample_tables)))) = [] \<and>
   line_item (current (snd (process_item no_faults 1 sample_appetizer (idle sample_tables)))) =
     [\<lparr>line_item_id = 1, li_receipt_id = 1, li_price = 2\<rparr>]"
proof -
  let ?m = "process_item no_faults 1 sample_appetizer (idle sample_tables)"
  have "fst ?m = Inr ()"
    by (simp add: process_item_no_faults entrees_present_def sample_appetizer_def)
  then have run: "?m = (Inr (), snd ?m)" by (rule pair_fst)
  have q: "quantity_of sample_appetizer = 1" "oi_type sample_appetizer = ''Appetizer''"
      "oi_price sample_appetizer = 2"
      "line_item sample_tables = []" "appetizer_item sample_tables = []"
    by (simp_all add: quantity_of_def sample_appetizer_def sample_tables_def)
  have "insert_variant flt lid (e\<lparr>oi_type := ''Appetizer''\<rparr>) c = (Inr (), c)"
    by (simp add: insert_variant_def)
  with process_item_effect(1)[OF run] show ?thesis
    by (simp add: q appetizer_rows_def)
qed


subsection \<open>Retrieval\<close>

lemma fetch_item_effect:
  assumes "fetch_item flt li c = (Inr j, c')"
  shows "j = item_of (current c) li" and "current c' = current c"
  using assms
  by (auto simp add: fetch_item_def and_then_Inr query_Inr select_meal_item_def
                     select_appetizer_item_def select_drink_item_def item_of_def detail_of_def first_match_def
           split: list.splits)

lemma fetch_items_effect:
  "fetch_items flt lis c = (Inr js, c') \<Longrightarrow>
     js = map (item_of (current c)) lis \<and> current c' = current c"
proof (induction lis arbitrary: c js)
  case Nil
  then show ?case by simp
next
  case (Cons li lis)
  from Cons.prems obtain j c1 rest where
    a: "fetch_item flt li c = (Inr j, c1)" and
    b: "fetch_items flt lis c1 = (Inr rest, c')" and
    js: "js = j # rest"
    by (auto simp add: and_then_Inr)
  from Cons.IH[OF b] fetch_item_effect[OF a] js show ?case by simp
qed

lemma getReceipt_found:
  assumes "getReceipt flt rid c = (ReceiptFound r items, c')"
  shows "items = receipt_items (current c) rid"
    and "\<exists>rest. filter (\<lambda>x. receipt_id x = rid) (receipt (current c)) = r # rest"
proof -
  let ?m = "and_then (query flt (select_receipt rid) c)
             (\<lambda>receiptRows c1. case receiptRows of
                [] \<Rightarrow> (Inr ReceiptNotFound, c1)
              | r # _ \<Rightarrow>
                  and_then (query flt (select_line_items rid) c1)
                    (\<lambda>lineItems c2. and_then (fetch_items flt lineItems c2)
                       (\<lambda>items c3. (Inr (ReceiptFound r items), c3))))"
  from assms have m: "?m = (Inr (ReceiptFound r items), c')"
    by (cases ?m) (auto simp add: getReceipt_def split: sum.splits)
  then obtain rows c1 where
    q: "query flt (select_receipt rid) c = (Inr rows, c1)" and
    k: "(case rows of
           [] \<Rightarrow> (Inr ReceiptNotFound, c1)
         | r # _ \<Rightarrow>
             and_then (query flt (select_line_items rid) c1)
               (\<lambda>lineItems c2. and_then (fetch_items flt lineItems c2)
                  (\<lambda>items c3. (Inr (ReceiptFound r items), c3)))) =
        (Inr (ReceiptFound r items), c')"
    unfolding and_then_Inr by blast
  from q have rows: "rows = filter (\<lambda>x. receipt_id x = rid) (receipt (current c))"
    and c1: "current c1 = current c"
    by (auto simp add: query_Inr select_receipt_def)
  from k obtain rest lis c2 where
    rr: "rows = r # rest" and
    l: "query flt (select_line_items rid) c1 = (Inr lis, c2)" and
    f: "fetch_items flt lis c2 = (Inr items, c')"
    by (cases rows) (auto simp add: and_then_Inr)
  from l have lis: "lis = filter (\<lambda>li. li_receipt_id li = rid) (line_item (current c1))"
    and c2: "current c2 = current c1"
    by (auto simp add: query_Inr select_line_items_def)
  from fetch_items_effect[OF f] lis c1 c2
  show "items = receipt_items (current c) rid" by (simp add: receipt_items_def)
  from rows rr have "filter (\<lambda>x. receipt_id x = rid) (receipt (current c)) = r # rest"
    by simp
  then show "\<exists>rest. filter (\<lambda>x. receipt_id x = rid) (receipt (current c)) = r # rest"
    by (rule exI)
qed

lemma detail_type_detail_of:
  "detail_type (detail_of t lid) =
     (if list_ex (\<lambda>mi. mi_line_item_id mi = lid) (meal_item t) then ''Meal''
      else if list_ex (\<lambda>ai. ai_line_item_id ai = lid) (appetizer_item t) then ''Appetizer''
      else if list_ex (\<lambda>di. di_line_item_id di = lid) (drink_item t) then ''Drink''
      else ''Unknown'')"
  by (auto simp add: detail_of_def first_match_def list_ex_iff filter_empty_conv split: list.splits
           dest: arg_cong[where f = set])


lemma and_then_pair [simp]:
  "and_then (Inr x, c) f = f x c"
  "and_then (Inl e, c) f = (Inl e, c)"
  by (simp_all add: and_then_def)

lemma select_no_faults:
  "query no_faults (select_meal_item lid) c =
     (Inr (filter (\<lambda>mi. mi_line_item_id mi = lid) (meal_item (current c))),
      c\<lparr>issued := Suc (issued c)\<rparr>)"
  "query no_faults (select_appetizer_item lid) c =
     (Inr (filter (\<lambda>ai. ai_line_item_id ai = lid) (appetizer_item (current c))),
      c\<lparr>issued := Suc (issued c)\<rparr>)"
  "query no_faults (select_drink_item lid) c =
     (Inr (filter (\<lambda>di. di_line_item_id di = lid) (drink_item (current c))),
      c\<lparr>issued := Suc (issued c)\<rparr>)"
  "query no_faults (select_receipt rid) c =
     (Inr (filter (\<lambda>r. receipt_id r = rid) (receipt (current c))),
      c\<lparr>issued := Suc (issued c)\<rparr>)"
  "query no_faults (select_line_items rid) c =
     (Inr (filter (\<lambda>li. li_receipt_id li = rid) (line_item (current c))),
      c\<lparr>issued := Suc (issued c)\<rparr>)"
  by (simp_all add: query_no_faults select_meal_item_def select_appetizer_item_def
                    select_drink_item_def select_receipt_def select_line_items_def)

lemma fetch_item_no_faults:
  "fst (fetch_item no_faults li c) = Inr (item_of (current c) li) \<and>
   current (snd (fetch_item no_faults li c)) = current c"
proof -
  let ?M = "filter (\<lambda>mi. mi_line_item_id mi = line_item_id li) (meal_item (current c))"
  let ?A = "filter (\<lambda>ai. ai_line_item_id ai = line_item_id li) (appetizer_item (current c))"
  let ?D = "filter (\<lambda>di. di_line_item_id di = line_item_id li) (drink_item (current c))"
  show ?thesis
  proof (cases ?M)
    case (Cons mi ms)
    then show ?thesis
      by (simp add: fetch_item_def select_no_faults item_of_def detail_of_def first_match_def)
  next
    case M: Nil
    show ?thesis
    proof (cases ?A)
      case (Cons ai as)
      with M show ?thesis
        by (simp add: fetch_item_def select_no_faults item_of_def detail_of_def first_match_def)
    next
      case A: Nil
      show ?thesis
      proof (cases ?D)
        case (Cons di ds)
        with M A show ?thesis
          by (simp add: fetch_item_def select_no_faults item_of_def detail_of_def first_match_def)
      next
        case Nil
        with M A show ?thesis
          by (simp add: fetch_item_def select_no_faults item_of_def detail_of_def first_match_def)
      qed
    qed
  qed
qed


lemma and_then_ok: "fst m = Inr x \<Longrightarrow> and_then m f = f x (snd m)"
  by (cases m) (simp add: and_then_def)

lemma fetch_items_no_faults:
  "fst (fetch_items no_faults lis c) = Inr (map (item_of (current c)) lis) \<and>
   current (snd (fetch_items no_faults lis c)) = current c"
proof (induction lis arbitrary: c)
  case Nil
  show ?case by simp
next
  case (Cons li lis)
  let ?c1 = "snd (fetch_item no_faults li c)"
  have a: "fst (fetch_item no_faults li c) = Inr (item_of (current c) li)"
    and c1: "current ?c1 = current c"
    using fetch_item_no_faults[of li c] by simp_all
  have b: "fst (fetch_items no_faults lis ?c1) = Inr (map (item_of (current c)) lis)"
    and c2: "current (snd (fetch_items no_faults lis ?c1)) = current c"
    using Cons.IH[of ?c1] by (simp_all add: c1)
  show ?case
    by (simp add: and_then_ok[OF a] and_then_ok[OF b] c2)
qed

lemma getReceipt_no_faults:
  "fst (getReceipt no_faults rid c) =
     (case filter (\<lambda>x. receipt_id x = rid) (receipt (current c)) of
        [] \<Rightarrow> ReceiptNotFound
      | r # _ \<Rightarrow> ReceiptFound r (receipt_items (current c) rid))"
proof (cases "filter (\<lambda>x. receipt_id x = rid) (receipt (current c))")
  case Nil
  then show ?thesis
    by (simp add: getReceipt_def select_no_faults)
next
  case (Cons r rest)
  let ?c2 = "c\<lparr>issued := Suc (Suc (issued c))\<rparr>"
  let ?lis = "filter (\<lambda>li. li_receipt_id li = rid) (line_item (current c))"
  have f: "fst (fetch_items no_faults ?lis ?c2) = Inr (map (item_of (current c)) ?lis)"
    using fetch_items_no_faults[of ?lis ?c2] by simp
  from Cons show ?thesis
    by (simp add: getReceipt_def select_no_faults and_then_ok[OF f] receipt_items_def)
qed

text \<open>
  C8. First match wins. The type discriminator of every line item of a fetched receipt
  is decided by asking the variant tables in the order meal, appetizer, drink for a row
  with the line item's id and taking the first table that has one; a line item with a
  row in exactly one table therefore gets that table's discriminator, and one with no row
  is reported as \<open>Unknown\<close>.
\<close>

theorem variant_first_match:
  assumes "getReceipt flt rid c = (ReceiptFound r items, c')" and "j \<in> set items"
  shows "detail_type (j_detail j) =
     (if list_ex (\<lambda>mi. mi_line_item_id mi = j_line_item_id j) (meal_item (current c))
      then ''Meal''
      else if list_ex (\<lambda>ai. ai_line_item_id ai = j_line_item_id j) (appetizer_item (current c))
      then ''Appetizer''
      else if list_ex (\<lambda>di. di_line_item_id di = j_line_item_id j) (drink_item (current c))
      then ''Drink''
      else ''Unknown'')"
proof -
  from getReceipt_found(1)[OF assms(1)] assms(2)
  obtain li where "j = item_of (current c) li"
    by (auto simp add: receipt_items_def)
  then have "j_detail j = detail_of (current c) (j_line_item_id j)"
    by (simp add: item_of_def)
  then show ?thesis by (simp only: detail_type_detail_of)
qed

lemma sold_items:
  "receipt_items sold_tables (Suc 0) =
     [\<lparr>j_line_item_id = 1,
       j_detail = MealDetail (Some ''Bowl'') [''Orange Chicken''] (Some ''Fried Rice''),
       j_price = 8\<rparr>,
      \<lparr>j_line_item_id = 2,
       j_detail = DrinkDetail (Some ''Medium Drink'') (Some ''Regular''), j_price = 2\<rparr>,
      \<lparr>j_line_item_id = 3, j_detail = AppetizerDetail (Some ''Spring Roll''), j_price = 3\<rparr>,
      \<lparr>j_line_item_id = 4, j_detail = UnknownDetail, j_price = 7\<rparr>]"
  by (simp add: receipt_items_def item_of_def detail_of_def first_match_def sold_tables_def)

theorem variant_first_match_witness:
  "map (\<lambda>j. detail_type (j_detail j))
     (line_items_of (fst (getReceipt no_faults 1 (idle sold_tables)))) =
     [''Meal'', ''Drink'', ''Appetizer'', ''Unknown'']"
proof -
  let ?m = "getReceipt no_faults 1 (idle sold_tables)"
  let ?r = "\<lparr>receipt_id = 1, totalamount = 20\<rparr>"
  have "filter (\<lambda>x. receipt_id x = 1) (receipt sold_tables) = [?r]"
    by (simp add: sold_tables_def)
  then have found: "fst ?m = ReceiptFound ?r (receipt_items sold_tables 1)"
    by (simp add: getReceipt_no_faults)
  then have run: "?m = (ReceiptFound ?r (receipt_items sold_tables 1), snd ?m)"
    by (rule pair_fst)
  have tabs: "meal_item sold_tables = [\<lparr>mi_line_item_id = 1, mi_size = Some ''Bowl'',
                     mi_price = 8, mi_meat1 = Some ''Orange Chicken'', mi_meat2 = None,
                     mi_meat3 = None, mi_side = Some ''Fried Rice''\<rparr>]"
      "drink_item sold_tables =
         [\<lparr>di_line_item_id = 2, di_name = Some ''Medium Drink'', di_price = 2,
           di_size = Some ''Regular''\<rparr>,
          \<lparr>di_line_item_id = 3, di_name = Some ''Medium Drink'', di_price = 3,
           di_size = Some ''Regular''\<rparr>]"
      "appetizer_item sold_tables =
         [\<lparr>ai_line_item_id = 3, ai_name = Some ''Spring Roll'', ai_price = 3\<rparr>]"
    by (simp_all add: sold_tables_def)
  have "\<forall>j \<in> set (receipt_items sold_tables 1). detail_type (j_detail j) =
     (if list_ex (\<lambda>mi. mi_line_item_id mi = j_line_item_id j) (meal_item sold_tables)
      then ''Meal''
      else if list_ex (\<lambda>ai. ai_line_item_id ai = j_line_item_id j) (appetizer_item sold_tables)
      then ''Appetizer''
      else if list_ex (\<lambda>di. di_line_item_id di = j_line_item_id j) (drink_item sold_tables)
      then ''Drink''
      else ''Unknown'')"
    using variant_first_match[OF run] by simp
  then have "map (\<lambda>j. detail_type (j_detail j)) (receipt_items sold_tables 1) =
     [''Meal'', ''Drink'', ''Appetizer'', ''Unknown'']"
    by (simp add: sold_items tabs)
  with found show ?thesis by simp
qed


subsection \<open>Checkout followed by retrieval\<close>


lemma detail_of_other_tables [simp]:
  "detail_of (t\<lparr>line_item := a\<rparr>) lid = detail_of t lid"
  "detail_of (t\<lparr>inventory := b\<rparr>) lid = detail_of t lid"
  by (simp_all add: detail_of_def)








lemma filter_below_Nil:
  "list_all (\<lambda>x. f x < (n::nat)) xs \<Longrightarrow> filter (\<lambda>x. f x = n) xs = []"
  by (induction xs) auto

lemma list_all_less_Suc:
  "list_all (\<lambda>x. f x < (n::nat)) xs \<Longrightarrow> list_all (\<lambda>x. f x < Suc n) xs"
  by (induction xs) auto








lemma receipt_items_inventory [simp]:
  "receipt_items (t\<lparr>inventory := b\<rparr>) rid = receipt_items t rid"
  by (simp add: receipt_items_def item_of_def)












end
